theory Spec2Isabelle
  imports Complex_Main "HOL-Library.Multiset" "HOL-Library.Char_ord" "HOL-Library.List_Lexorder"
begin

section \<open>Python and library primitives\<close>

text \<open>
  Exceptions of the program, one constructor per raise site or Python exception class.
  \<^item> \<open>SplitRatiosKeys\<close>: \<^verbatim>\<open>raise Exception("The dictionary 'split_ratios' should have
    the following keys: ...")\<close> (dataset.py, line 28);
  \<^item> \<open>SplitRatiosSum\<close>: \<^verbatim>\<open>raise Exception("The values of dictionary 'split_ratios'
    should sum up to 1.0.")\<close> (dataset.py, line 31);
  \<^item> \<open>ColumnsInputOutput t\<close>: the failed \<^verbatim>\<open>assert\<close> of dataset.py, line 82, for the
    input data type \<open>t\<close>;
  \<^item> \<open>ColumnsOutputMask\<close>: the failed \<^verbatim>\<open>assert\<close> of dataset.py, line 102;
  \<^item> the others are the Python exceptions of the same names.
\<close>

datatype error =
    SplitRatiosKeys
  | SplitRatiosSum
  | ColumnsInputOutput string
  | ColumnsOutputMask
  | FileNotFoundError string
  | KeyError string
  | TypeError string
  | ValueError
  | IndexError
  | ZeroDivisionError

text \<open>Python's \<^verbatim>\<open>int(x)\<close> on a float truncates towards zero.\<close>

definition py_int :: "real \<Rightarrow> int" where
  "py_int x = (if 0 \<le> x then \<lfloor>x\<rfloor> else \<lceil>x\<rceil>)"

text \<open>
  Python slicing of a sequence of length \<open>n\<close>: a negative bound counts from the end, and
  every bound is clipped to \<open>0..n\<close>.
\<close>

definition slice_bound :: "nat \<Rightarrow> int \<Rightarrow> nat" where
  "slice_bound n i = (if i < 0 then nat (max 0 (int n + i)) else min (nat i) n)"

definition py_slice :: "'a list \<Rightarrow> int \<Rightarrow> int \<Rightarrow> 'a list" where
  "py_slice xs lo hi =
     (let a = slice_bound (length xs) lo; b = slice_bound (length xs) hi
      in take (b - a) (drop a xs))"

definition py_slice_to :: "'a list \<Rightarrow> int \<Rightarrow> 'a list" where
  "py_slice_to xs hi = take (slice_bound (length xs) hi) xs"

definition py_slice_from :: "'a list \<Rightarrow> int \<Rightarrow> 'a list" where
  "py_slice_from xs lo = drop (slice_bound (length xs) lo) xs"


definition shuffle :: "(int \<Rightarrow> nat \<Rightarrow> nat list) \<Rightarrow> 'a list \<Rightarrow> int \<Rightarrow> 'a list" where
  "shuffle perm xs seed = map (\<lambda>i. xs ! i) (perm seed (length xs))"


section \<open>Normalizer: the expressions of validate.py, lines 23 and 30\<close>

text \<open>
  A batch tensor is a list of rows; the statistics are one row, broadcast over the batch.
  \<^verbatim>\<open>X = (X - dataset.X_train_mean) / dataset.X_train_std\<close> and
  \<^verbatim>\<open>yhat = yhat * dataset.y_train_std + dataset.y_train_mean\<close>.
  Entries are real numbers: floating-point rounding is not modelled.
\<close>

type_synonym tensor = "real list list"

definition row_apply :: "real list \<Rightarrow> real list \<Rightarrow> real list \<Rightarrow> real list" where
  "row_apply x mean std = map (\<lambda>(xi, m, s). (xi - m) / s) (zip x (zip mean std))"

definition row_invert :: "real list \<Rightarrow> real list \<Rightarrow> real list \<Rightarrow> real list" where
  "row_invert x mean std = map (\<lambda>(xi, m, s). xi * s + m) (zip x (zip mean std))"

definition normalizer_apply :: "tensor \<Rightarrow> real list \<Rightarrow> real list \<Rightarrow> tensor" where
  "normalizer_apply X mean std = map (\<lambda>row. row_apply row mean std) X"

definition normalizer_invert :: "tensor \<Rightarrow> real list \<Rightarrow> real list \<Rightarrow> tensor" where
  "normalizer_invert X mean std = map (\<lambda>row. row_invert row mean std) X"

section \<open>SplitPartitioner: dataset.py, lines 44 to 50\<close>

record partition =
  train_idx :: "nat list"
  val_idx :: "nat list"
  test_idx :: "nat list"

definition split_indices ::
  "(int \<Rightarrow> nat \<Rightarrow> nat list) \<Rightarrow> nat \<Rightarrow> real \<Rightarrow> real \<Rightarrow> int \<Rightarrow> partition" where
  "split_indices perm len_dataset train_ratio val_ratio seed =
     (let all_indices = shuffle perm [0..<len_dataset] seed;
          train_size = py_int (real len_dataset * train_ratio);
          val_size = py_int (real len_dataset * val_ratio)
      in \<lparr> train_idx = py_slice_to all_indices train_size,
           val_idx = py_slice all_indices train_size (train_size + val_size),
           test_idx = py_slice_from all_indices (train_size + val_size) \<rparr>)"


section \<open>Configuration and data of a run\<close>

text \<open>
  The configuration dictionary \<^verbatim>\<open>cfg\<close>, one field per key the modelled code reads.
  Only \<^verbatim>\<open>split_ratios\<close> is kept as a dictionary, since the code checks its keys.
\<close>

record cfg =
  cfg_split_ratios :: "string \<rightharpoonup> real"
  cfg_seed :: int
  cfg_cancer_type :: string
  cfg_normalization_eps :: real
  cfg_normalize_input :: bool
  cfg_normalize_output :: bool
  cfg_loss_function :: string
  cfg_early_stopping_patience :: int
  cfg_num_epochs :: int
  cfg_entrezgene_ids :: "string list"

text \<open>
  The four statistics of a \<^verbatim>\<open>Dataset\<close>. The entry type is a parameter: numpy's results
  may be NaN (\<open>real option\<close>, with \<open>None\<close> for NaN), the tensors of the validation pass
  hold reals.
\<close>

record 'a statistics =
  X_train_mean :: "'a list"
  X_train_std :: "'a list"
  y_train_mean :: "'a list"
  y_train_std :: "'a list"

record batch =
  batch_X :: tensor
  batch_y :: tensor
  sample_id_indices :: "nat list"

text \<open>\<^verbatim>\<open>y.shape[0] * y.shape[1]\<close> of a rectangular batch.\<close>

definition numel :: "tensor \<Rightarrow> real" where
  "numel y = real (length y * (case y of [] \<Rightarrow> 0 | row # _ \<Rightarrow> length row))"

text \<open>
  A table read from a tab-separated file whose first column is \<^verbatim>\<open>sample_id\<close>:
  the names of the other columns, and per row the sample id and the values.
\<close>

record dataframe =
  df_columns :: "string list"
  df_rows :: "(string \<times> real list) list"

section \<open>Validation pass: validate.py\<close>

text \<open>
  The body of the loop over the validation batches (lines 19 to 33); the accumulator is
  \<^verbatim>\<open>(main_loss_count, main_loss_sum)\<close>. The model and the loss function (sum
  reduction) are opaque parameters.
\<close>

definition validate_batch ::
  "cfg \<Rightarrow> (tensor \<Rightarrow> tensor) \<Rightarrow> (tensor \<Rightarrow> tensor \<Rightarrow> real) \<Rightarrow> real statistics \<Rightarrow> batch
     \<Rightarrow> real \<times> real \<Rightarrow> real \<times> real" where
  "validate_batch cfg model loss_fn dataset b acc =
     (let X = batch_X b;
          y = batch_y b;
          X = (if cfg_normalize_input cfg
               then normalizer_apply X (X_train_mean dataset) (X_train_std dataset) else X);
          yhat = model X;
          yhat = (if cfg_normalize_output cfg
                  then normalizer_invert yhat (y_train_mean dataset) (y_train_std dataset)
                  else yhat)
      in (fst acc + numel y, snd acc + loss_fn yhat y))"

text \<open>
  \<^verbatim>\<open>validate(cfg, data_loaders, model, loss_function, dataset, epoch, logger,
  summary_writer)\<close>. Every parameter is required: a call that does not supply
  \<open>summary_writer\<close> (\<open>None\<close> here) raises TypeError before the body runs. Dividing the
  float \<open>0.0\<close> by \<open>0.0\<close> raises ZeroDivisionError. The result is the dictionary
  \<^verbatim>\<open>{cfg["loss_function"]: main_loss_sum / main_loss_count}\<close>. Logging is not
  modelled.
\<close>

definition validate ::
  "cfg \<Rightarrow> (string \<rightharpoonup> batch list) \<Rightarrow> (tensor \<Rightarrow> tensor) \<Rightarrow> (tensor \<Rightarrow> tensor \<Rightarrow> real)
     \<Rightarrow> real statistics \<Rightarrow> int \<Rightarrow> 'w option \<Rightarrow> error + (string \<rightharpoonup> real)" where
  "validate cfg data_loaders model loss_fn dataset epoch summary_writer =
     (case summary_writer of
        None \<Rightarrow> Inl (TypeError ''summary_writer'')
      | Some w \<Rightarrow>
          (case data_loaders ''val'' of
             None \<Rightarrow> Inl (KeyError ''val'')
           | Some batches \<Rightarrow>
               (let acc = fold (validate_batch cfg model loss_fn dataset) batches (0, 0);
                    main_loss_count = fst acc;
                    main_loss_sum = snd acc
                in if main_loss_count = 0 then Inl ZeroDivisionError
                   else Inr [cfg_loss_function cfg \<mapsto> main_loss_sum / main_loss_count])))"

section \<open>Evaluation and reporting: test.py\<close>

text \<open>
  \<^verbatim>\<open>sklearn.metrics.mean_squared_error\<close> on two flat arrays: ValueError when the
  lengths differ or the arrays are empty.
\<close>

definition mean_squared_error :: "real list \<Rightarrow> real list \<Rightarrow> error + real" where
  "mean_squared_error y_true y_pred =
     (if length y_true = length y_pred \<and> y_true \<noteq> []
      then Inr (sum_list (map (\<lambda>(t, p). (t - p)\<^sup>2) (zip y_true y_pred)) / real (length y_true))
      else Inl ValueError)"

text \<open>
  \<^verbatim>\<open>scipy.stats.pearsonr\<close>, the correlation coefficient only (the p-value is not
  modelled): ValueError when the lengths differ or are below 2, NaN (\<open>None\<close>) when an
  input is constant, otherwise the dot product of the centred, normalised vectors,
  clipped to \<open>[-1, 1]\<close>.
\<close>

definition centred :: "real list \<Rightarrow> real list" where
  "centred x = map (\<lambda>v. v - sum_list x / real (length x)) x"

definition norm2 :: "real list \<Rightarrow> real" where
  "norm2 x = sqrt (sum_list (map (\<lambda>v. v\<^sup>2) x))"

definition dot :: "real list \<Rightarrow> real list \<Rightarrow> real" where
  "dot x y = sum_list (map (\<lambda>(a, b). a * b) (zip x y))"

definition pearsonr :: "real list \<Rightarrow> real list \<Rightarrow> error + real option" where
  "pearsonr x y =
     (if length x = length y \<and> 2 \<le> length x then
        if list_all (\<lambda>v. v = hd x) x \<or> list_all (\<lambda>v. v = hd y) y then Inr None
        else let xm = centred x;
                 ym = centred y;
                 r = dot (map (\<lambda>v. v / norm2 xm) xm) (map (\<lambda>v. v / norm2 ym) ym)
             in Inr (Some (max (min r 1) (- 1)))
      else Inl ValueError)"

text \<open>
  \<^verbatim>\<open>get_evaluation_metrics\<close> (lines 22 to 31): the rows of the group's samples,
  flattened row by row.
\<close>

definition ravel_group :: "dataframe \<Rightarrow> string list \<Rightarrow> real list" where
  "ravel_group df current_sample_ids =
     concat (map snd (filter (\<lambda>row. fst row \<in> set current_sample_ids) (df_rows df)))"

definition get_evaluation_metrics ::
  "string \<Rightarrow> dataframe \<Rightarrow> dataframe \<Rightarrow> string list \<Rightarrow> error + string \<times> real \<times> real option" where
  "get_evaluation_metrics cancer_type all_ground_truths all_predictions current_sample_ids =
     (let current_ground_truths = ravel_group all_ground_truths current_sample_ids;
          current_predictions = ravel_group all_predictions current_sample_ids
      in case mean_squared_error current_ground_truths current_predictions of
           Inl e \<Rightarrow> Inl e
         | Inr all_mse \<Rightarrow>
             (case pearsonr current_ground_truths current_predictions of
                Inl e \<Rightarrow> Inl e
              | Inr all_corr \<Rightarrow> Inr (cancer_type, all_mse, all_corr)))"

text \<open>The loop of lines 90 and 91: an exception in one group ends the run.\<close>

fun evaluation_metrics ::
  "dataframe \<Rightarrow> dataframe \<Rightarrow> (string \<times> string list) list
     \<Rightarrow> error + (string \<times> real \<times> real option) list" where
  "evaluation_metrics gts preds [] = Inr []"
| "evaluation_metrics gts preds ((current_cancer_type, current_sample_ids) # groups) =
     (case get_evaluation_metrics current_cancer_type gts preds current_sample_ids of
        Inl e \<Rightarrow> Inl e
      | Inr m \<Rightarrow>
          (case evaluation_metrics gts preds groups of
             Inl e \<Rightarrow> Inl e
           | Inr ms \<Rightarrow> Inr (m # ms)))"

text \<open>
  The loop over the batches of a split (lines 45 to 57). The predictions are the
  model's output on the batch as loaded.
\<close>

record split_results =
  total_count :: real
  total_loss :: real
  all_sample_ids :: "string list"
  all_ground_truths :: tensor
  all_predictions :: tensor

fun collect_batches ::
  "(tensor \<Rightarrow> tensor) \<Rightarrow> (tensor \<Rightarrow> tensor \<Rightarrow> real) \<Rightarrow> string list \<Rightarrow> batch list
     \<Rightarrow> split_results \<Rightarrow> error + split_results" where
  "collect_batches model loss_fn sample_ids [] r = Inr r"
| "collect_batches model loss_fn sample_ids (b # bs) r =
     (let X = batch_X b;
          y = batch_y b;
          yhat = model X
      in if list_all (\<lambda>i. i < length sample_ids) (sample_id_indices b)
         then collect_batches model loss_fn sample_ids bs
                (r\<lparr> total_count := total_count r + numel y,
                    total_loss := total_loss r + loss_fn yhat y,
                    all_sample_ids :=
                      all_sample_ids r @ map (\<lambda>i. sample_ids ! i) (sample_id_indices b),
                    all_ground_truths := all_ground_truths r @ y,
                    all_predictions := all_predictions r @ yhat \<rparr>)
         else Inl IndexError)"


text \<open>
  The frames of lines 70 to 72 and 75 to 77: one row per sample id, rows sorted by sample
  id, columns sorted by name. The constructor raises ValueError when the shape of the data
  does not fit the index and the column names (which are taken to be distinct).
\<close>

fun index_of :: "'a list \<Rightarrow> 'a \<Rightarrow> nat" where
  "index_of [] c = 0"
| "index_of (x # xs) c = (if x = c then 0 else Suc (index_of xs c))"

definition select_columns :: "dataframe \<Rightarrow> string list \<Rightarrow> dataframe" where
  "select_columns df names =
     \<lparr> df_columns = names,
       df_rows = map (\<lambda>row. (fst row, map (\<lambda>c. snd row ! index_of (df_columns df) c) names))
                   (df_rows df) \<rparr>"

definition results_frame :: "string list \<Rightarrow> string list \<Rightarrow> tensor \<Rightarrow> error + dataframe" where
  "results_frame entrezgene_ids sample_ids data =
     (if length sample_ids = length data
         \<and> list_all (\<lambda>row. length row = length entrezgene_ids) data
      then Inr (select_columns
                 \<lparr> df_columns = entrezgene_ids,
                   df_rows = sort_key fst (zip sample_ids data) \<rparr>
                 (sort entrezgene_ids))
      else Inl ValueError)"

text \<open>
  Lines 85 and 86: the sample ids of each cancer type, the types in sorted order, and the
  group \<^verbatim>\<open>"all"\<close> set last with every sample id of the split. Setting a key
  of a Python dictionary keeps the key's place when it is there already.
\<close>

definition group_by_cancer_type :: "(string \<times> string) list \<Rightarrow> (string \<times> string list) list" where
  "group_by_cancer_type tbl =
     map (\<lambda>ct. (ct, map fst (filter (\<lambda>row. snd row = ct) tbl))) (sort (remdups (map snd tbl)))"

fun dict_set :: "'k \<Rightarrow> 'v \<Rightarrow> ('k \<times> 'v) list \<Rightarrow> ('k \<times> 'v) list" where
  "dict_set k v [] = [(k, v)]"
| "dict_set k v (kv # kvs) = (if fst kv = k then (k, v) # kvs else kv # dict_set k v kvs)"

record split_artifacts =
  all_loss :: real
  ground_truths_tsv :: dataframe
  predictions_tsv :: dataframe
  cancer_types_tsv :: "(string \<times> string) list"
  evaluation_metrics_all :: "(string \<times> real \<times> real option) list"

text \<open>
  \<^verbatim>\<open>save_results_split\<close>. \<open>sample_ids\<close> is \<^verbatim>\<open>dataset.sample_ids\<close> and
  \<open>cancer_type_tsv\<close> the rows (sample id, cancer type) of \<^verbatim>\<open>cancer_type.tsv\<close>.
  \<^verbatim>\<open>np.hstack\<close> of no batch raises ValueError.
\<close>

definition save_results_split ::
  "cfg \<Rightarrow> (string \<rightharpoonup> batch list) \<Rightarrow> string \<Rightarrow> (tensor \<Rightarrow> tensor) \<Rightarrow> (tensor \<Rightarrow> tensor \<Rightarrow> real)
     \<Rightarrow> string list \<Rightarrow> (string \<times> string) list \<Rightarrow> error + split_artifacts" where
  "save_results_split cfg data_loaders split_name model loss_fn sample_ids cancer_type_tsv =
     (case data_loaders split_name of
        None \<Rightarrow> Inl (KeyError split_name)
      | Some batches \<Rightarrow>
          (case collect_batches model loss_fn sample_ids batches
                  \<lparr> total_count = 0, total_loss = 0, all_sample_ids = [],
                    all_ground_truths = [], all_predictions = [] \<rparr> of
             Inl e \<Rightarrow> Inl e
           | Inr r \<Rightarrow>
               if batches = [] then Inl ValueError
               else if total_count r = 0 then Inl ZeroDivisionError
               else
                 (case results_frame (cfg_entrezgene_ids cfg) (all_sample_ids r)
                         (all_ground_truths r) of
                    Inl e \<Rightarrow> Inl e
                  | Inr gts \<Rightarrow>
                      (case results_frame (cfg_entrezgene_ids cfg) (all_sample_ids r)
                              (all_predictions r) of
                         Inl e \<Rightarrow> Inl e
                       | Inr preds \<Rightarrow>
                           (let all_cancer_types =
                                  sort_key fst
                                    (filter (\<lambda>row. fst row \<in> set (all_sample_ids r))
                                       cancer_type_tsv);
                                groups = dict_set ''all'' (all_sample_ids r)
                                           (group_by_cancer_type all_cancer_types)
                            in case evaluation_metrics gts preds groups of
                                 Inl e \<Rightarrow> Inl e
                               | Inr ms \<Rightarrow>
                                   Inr \<lparr> all_loss = total_loss r / total_count r,
                                         ground_truths_tsv = gts,
                                         predictions_tsv = preds,
                                         cancer_types_tsv = all_cancer_types,
                                         evaluation_metrics_all = ms \<rparr>)))))"

text \<open>Opaque parameters, fixed for the examples: a sum-of-squares loss and a model that answers the same on every batch.\<close>

definition sum_squared_error :: "tensor \<Rightarrow> tensor \<Rightarrow> real" where
  "sum_squared_error yhat y =
     sum_list (map (\<lambda>(p, t). (p - t)\<^sup>2) (zip (concat yhat) (concat y)))"

definition fixed_model :: "tensor \<Rightarrow> tensor \<Rightarrow> tensor" where
  "fixed_model out X = out"

definition example_cfg :: cfg where
  "example_cfg =
     \<lparr> cfg_split_ratios = [''train'' \<mapsto> 1 / 2, ''val'' \<mapsto> 1 / 4, ''test'' \<mapsto> 1 / 4],
       cfg_seed = 0,
       cfg_cancer_type = ''BRCA'',
       cfg_normalization_eps = 1 / 100000,
       cfg_normalize_input = False,
       cfg_normalize_output = True,
       cfg_loss_function = ''mse'',
       cfg_early_stopping_patience = 2,
       cfg_num_epochs = 4,
       cfg_entrezgene_ids = [''g1'', ''g2''] \<rparr>"


section \<open>Training loop: main.py, lines 31 to 58\<close>

text \<open>
  The state the loop of \<^verbatim>\<open>main.py\<close> changes: the model in memory, the best validation
  loss (\<open>None\<close> is \<^verbatim>\<open>np.inf\<close>), the counter, the persisted checkpoint, the recorded
  early-stopping epoch and the losses the scheduler was stepped with.
\<close>

record 'm training_state =
  current_model :: 'm
  best_val_loss :: "real option"
  num_epochs_val_loss_not_decreased :: int
  saved_model :: "'m option"
  early_stopping_epoch :: "int option"
  scheduler_steps :: "real list"

text \<open>
  Modelled from the spec: \<^verbatim>\<open>save_model\<close> of utils.py, which is not among the sources
  ("persist a full checkpoint of the model as best").
\<close>

definition save_model :: "'m training_state \<Rightarrow> 'm training_state" where
  "save_model s = s\<lparr> saved_model := Some (current_model s) \<rparr>"

text \<open>
  Modelled from the spec: \<^verbatim>\<open>load_model\<close> of utils.py, which is not among the sources
  ("the best-checkpoint model, reloaded from persisted state"); with no checkpoint
  persisted there is no file to load.
\<close>

definition load_model :: "'m training_state \<Rightarrow> error + 'm" where
  "load_model s =
     (case saved_model s of None \<Rightarrow> Inl (FileNotFoundError ''model'') | Some m \<Rightarrow> Inr m)"

text \<open>
  Modelled from the spec: \<^verbatim>\<open>set_early_stopping_epoch\<close> of utils.py, which is not among
  the sources ("record the epoch at which this occurred").
\<close>

definition set_early_stopping_epoch :: "int \<Rightarrow> 'm training_state \<Rightarrow> 'm training_state" where
  "set_early_stopping_epoch epoch s = s\<lparr> early_stopping_epoch := Some epoch \<rparr>"

text \<open>
  Modelled from the spec: \<^verbatim>\<open>scheduler.step\<close>, an opaque stateful object ("advance the
  scheduler with the current validation loss"); the model records the losses it is given.
\<close>

definition scheduler_step :: "real \<Rightarrow> 'm training_state \<Rightarrow> 'm training_state" where
  "scheduler_step current_val_loss s =
     s\<lparr> scheduler_steps := scheduler_steps s @ [current_val_loss] \<rparr>"

text \<open>\<^verbatim>\<open>current_val_loss < best_val_loss\<close>, where the best loss starts at infinity.\<close>

definition less_than_best :: "real \<Rightarrow> real option \<Rightarrow> bool" where
  "less_than_best current_val_loss best =
     (case best of None \<Rightarrow> True | Some b \<Rightarrow> current_val_loss < b)"

text \<open>
  The loop of lines 34 to 50 over the epochs still to run. \<open>train\<close> (train.py, not among
  the sources) updates the model in place and is an opaque parameter; \<open>validate_call\<close>
  is the call of line 36 on the model in memory. \<^verbatim>\<open>break\<close> is the branch that returns.
\<close>

fun training_loop ::
  "('m \<Rightarrow> 'm) \<Rightarrow> ('m \<Rightarrow> int \<Rightarrow> error + (string \<rightharpoonup> real)) \<Rightarrow> int \<Rightarrow> int list
     \<Rightarrow> 'm training_state \<Rightarrow> error + 'm training_state" where
  "training_loop train validate_call patience [] s = Inr s"
| "training_loop train validate_call patience (epoch # epochs) s =
     (let s1 = s\<lparr> current_model := train (current_model s) \<rparr>
      in case validate_call (current_model s1) epoch of
           Inl e \<Rightarrow> Inl e
         | Inr loss_dict \<Rightarrow>
             (case loss_dict ''val'' of
                None \<Rightarrow> Inl (KeyError ''val'')
              | Some current_val_loss \<Rightarrow>
                  (let s2 = (if less_than_best current_val_loss (best_val_loss s1)
                             then save_model
                                    (s1\<lparr> num_epochs_val_loss_not_decreased := 0,
                                         best_val_loss := Some current_val_loss \<rparr>)
                             else s1\<lparr> num_epochs_val_loss_not_decreased :=
                                         num_epochs_val_loss_not_decreased s1 + 1 \<rparr>)
                   in if num_epochs_val_loss_not_decreased s2 = patience
                      then Inr (set_early_stopping_epoch epoch s2)
                      else training_loop train validate_call patience epochs
                             (scheduler_step current_val_loss s2))))"

definition initial_state :: "'m \<Rightarrow> 'm training_state" where
  "initial_state init_model =
     \<lparr> current_model = init_model, best_val_loss = None, num_epochs_val_loss_not_decreased = 0,
       saved_model = None, early_stopping_epoch = None, scheduler_steps = [] \<rparr>"

text \<open>
  The program from line 31 on: the loop over \<^verbatim>\<open>range(1, cfg["num_epochs"] + 1)\<close>, then
  the model is deleted and loaded again from the checkpoint. The result is the final
  state and the model handed to the evaluation phase (line 58).
\<close>

definition main ::
  "('m \<Rightarrow> 'm) \<Rightarrow> ('m \<Rightarrow> int \<Rightarrow> error + (string \<rightharpoonup> real)) \<Rightarrow> cfg \<Rightarrow> 'm
     \<Rightarrow> error + 'm training_state \<times> 'm" where
  "main train validate_call cfg init_model =
     (case training_loop train validate_call (cfg_early_stopping_patience cfg)
             [1..cfg_num_epochs cfg] (initial_state init_model) of
        Inl e \<Rightarrow> Inl e
      | Inr s \<Rightarrow> (case load_model s of Inl e \<Rightarrow> Inl e | Inr m \<Rightarrow> Inr (s, m)))"

text \<open>
  The call of line 36, as written: \<^verbatim>\<open>validate(cfg=cfg, data_loaders=data_loaders,
  model=model, loss_function=val_test_loss_function, dataset=dataset, epoch=epoch,
  logger=logger)\<close>, with no \<^verbatim>\<open>summary_writer\<close>. \<open>forward\<close> runs a model on a batch.
\<close>

definition main_validate_call ::
  "cfg \<Rightarrow> (string \<rightharpoonup> batch list) \<Rightarrow> ('m \<Rightarrow> tensor \<Rightarrow> tensor) \<Rightarrow> (tensor \<Rightarrow> tensor \<Rightarrow> real)
     \<Rightarrow> real statistics \<Rightarrow> 'm \<Rightarrow> int \<Rightarrow> error + (string \<rightharpoonup> real)" where
  "main_validate_call cfg data_loaders forward loss_fn dataset m epoch =
     validate cfg data_loaders (forward m) loss_fn dataset epoch (None :: unit option)"



section \<open>Normalization statistics: dataset.py, lines 52 to 65\<close>

text \<open>
  \<^verbatim>\<open>np.mean\<close> and \<^verbatim>\<open>np.std\<close> (population standard deviation) of one column;
  on an empty column numpy returns NaN, which is \<open>None\<close>.
\<close>

definition np_mean :: "real list \<Rightarrow> real option" where
  "np_mean xs = (if xs = [] then None else Some (sum_list xs / real (length xs)))"

definition np_std :: "real list \<Rightarrow> real option" where
  "np_std xs =
     (case np_mean xs of
        None \<Rightarrow> None
      | Some m \<Rightarrow> Some (sqrt (sum_list (map (\<lambda>x. (x - m)\<^sup>2) xs) / real (length xs))))"

text \<open>A matrix is a list of rows of a given width \<open>d\<close>; \<^verbatim>\<open>axis=0\<close> works column by column.\<close>

definition column :: "nat \<Rightarrow> tensor \<Rightarrow> real list" where
  "column j M = map (\<lambda>row. row ! j) M"

definition np_mean_axis0 :: "nat \<Rightarrow> tensor \<Rightarrow> real option list" where
  "np_mean_axis0 d M = map (\<lambda>j. np_mean (column j M)) [0..<d]"

definition np_std_axis0 :: "nat \<Rightarrow> tensor \<Rightarrow> real option list" where
  "np_std_axis0 d M = map (\<lambda>j. np_std (column j M)) [0..<d]"

text \<open>
  \<^verbatim>\<open>M[idx, :]\<close> and \<^verbatim>\<open>a[idx] = v\<close> with a list of indices: IndexError when an
  index is out of range.
\<close>

definition take_rows :: "'a list \<Rightarrow> nat list \<Rightarrow> error + 'a list" where
  "take_rows M idx =
     (if list_all (\<lambda>i. i < length M) idx then Inr (map (\<lambda>i. M ! i) idx) else Inl IndexError)"

definition set_indices :: "'a list \<Rightarrow> nat list \<Rightarrow> 'a \<Rightarrow> error + 'a list" where
  "set_indices a idx v =
     (if list_all (\<lambda>i. i < length a) idx then Inr (fold (\<lambda>i acc. acc[i := v]) idx a)
      else Inl IndexError)"

text \<open>
  Lines 52 to 65 of \<^verbatim>\<open>Dataset.__init__\<close>, on the matrices \<open>X\<close> (width
  \<open>input_dimension\<close>) and \<open>y\<close> (width \<open>output_dimension\<close>). The conversion to
  32-bit floats is not modelled.
\<close>

definition train_statistics ::
  "tensor \<Rightarrow> tensor \<Rightarrow> nat \<Rightarrow> nat \<Rightarrow> nat list \<Rightarrow> nat list \<Rightarrow> real
     \<Rightarrow> error + real option statistics" where
  "train_statistics X y input_dimension output_dimension train_indices one_hot_column_indices eps =
     (case take_rows X train_indices of
        Inl e \<Rightarrow> Inl e
      | Inr X_train \<Rightarrow>
          (case take_rows y train_indices of
             Inl e \<Rightarrow> Inl e
           | Inr y_train \<Rightarrow>
               (case set_indices (np_mean_axis0 input_dimension X_train)
                       one_hot_column_indices (Some 0) of
                  Inl e \<Rightarrow> Inl e
                | Inr X_mean \<Rightarrow>
                    (case set_indices
                            (map (map_option (\<lambda>s. s + eps)) (np_std_axis0 input_dimension X_train))
                            one_hot_column_indices (Some 1) of
                       Inl e \<Rightarrow> Inl e
                     | Inr X_std \<Rightarrow>
                         Inr \<lparr> X_train_mean = X_mean,
                               X_train_std = X_std,
                               y_train_mean = np_mean_axis0 output_dimension y_train,
                               y_train_std = map (map_option (\<lambda>s. s + eps))
                                               (np_std_axis0 output_dimension y_train) \<rparr>))))"


section \<open>DatasetAssembler: dataset.py, lines 67 to 124\<close>

text \<open>
  The processed data directory: the numeric tables by file name, and the label tables
  (\<^verbatim>\<open>cancer_type.tsv\<close>: sample id and cancer type) by file name.
\<close>

record data_dir =
  tables :: "string \<rightharpoonup> dataframe"
  label_tables :: "string \<rightharpoonup> (string \<times> string) list"

text \<open>
  \<^verbatim>\<open>pd.read_csv\<close>: the file is recorded as loaded; a missing file raises
  FileNotFoundError.
\<close>

definition read_csv :: "(string \<rightharpoonup> 'a) \<Rightarrow> string \<Rightarrow> string list \<Rightarrow> string list \<times> (error + 'a)" where
  "read_csv files name loaded =
     (loaded @ [name],
      case files name of None \<Rightarrow> Inl (FileNotFoundError name) | Some df \<Rightarrow> Inr df)"

text \<open>\<^verbatim>\<open>df.columns.tolist()\<close>: the key column first.\<close>

definition columns_tolist :: "dataframe \<Rightarrow> string list" where
  "columns_tolist df = ''sample_id'' # df_columns df"

text \<open>
  \<^verbatim>\<open>pd.merge(left, right, on="sample_id", how="inner")\<close>: the rows that share a
  sample id, in the order of the left table; a column name that occurs on both sides gets
  the suffix \<^verbatim>\<open>_x\<close> on the left and \<^verbatim>\<open>_y\<close> on the right.
\<close>

definition merge_columns :: "string list \<Rightarrow> string list \<Rightarrow> string list" where
  "merge_columns left right =
     map (\<lambda>c. if c \<in> set right then c @ ''_x'' else c) left
     @ map (\<lambda>c. if c \<in> set left then c @ ''_y'' else c) right"

definition merge_rows :: "(string \<times> 'a) list \<Rightarrow> (string \<times> 'b) list \<Rightarrow> (string \<times> 'a \<times> 'b) list" where
  "merge_rows left right =
     concat (map (\<lambda>l. map (\<lambda>r. (fst l, snd l, snd r)) (filter (\<lambda>r. fst r = fst l) right)) left)"

definition merge :: "dataframe \<Rightarrow> dataframe \<Rightarrow> dataframe" where
  "merge left right =
     \<lparr> df_columns = merge_columns (df_columns left) (df_columns right),
       df_rows = map (\<lambda>row. (fst row, fst (snd row) @ snd (snd row)))
                   (merge_rows (df_rows left) (df_rows right)) \<rparr>"

definition startswith :: "string \<Rightarrow> string \<Rightarrow> bool" where
  "startswith s p = (take (length p) s = p)"

text \<open>
  The loop of lines 79 to 93 over the input data types still to load. \<open>ids\<close> is
  \<^verbatim>\<open>cancer_type_sample_ids\<close> when a cancer type is selected, \<open>input_df\<close> starts as
  \<^verbatim>\<open>None\<close>.
\<close>

fun load_inputs ::
  "data_dir \<Rightarrow> dataframe \<Rightarrow> string list option \<Rightarrow> string list \<Rightarrow> dataframe option
     \<Rightarrow> string list \<Rightarrow> string list \<times> (error + dataframe option)" where
  "load_inputs dir output_df ids [] input_df loaded = (loaded, Inr input_df)"
| "load_inputs dir output_df ids (current_input_data_type # types) input_df loaded =
     (case read_csv (tables dir) (current_input_data_type @ ''.tsv'') loaded of
        (loaded1, Inl e) \<Rightarrow> (loaded1, Inl e)
      | (loaded1, Inr current_df) \<Rightarrow>
          if current_input_data_type \<in> set [''cna'', ''cna_thresholded'']
             \<and> columns_tolist current_df \<noteq> columns_tolist output_df
          then (loaded1, Inl (ColumnsInputOutput current_input_data_type))
          else
            (let current_df =
                   (case ids of
                      None \<Rightarrow> current_df
                    | Some cancer_type_sample_ids \<Rightarrow>
                        current_df\<lparr> df_rows :=
                          filter (\<lambda>row. fst row \<in> set cancer_type_sample_ids)
                            (df_rows current_df) \<rparr>)
             in load_inputs dir output_df ids types
                  (Some (case input_df of
                           None \<Rightarrow> current_df
                         | Some df \<Rightarrow> merge df current_df))
                  loaded1))"

text \<open>
  Lines 95 to 100: with \<^verbatim>\<open>cancer_type == "all"\<close> the one-hot table is loaded and merged
  onto the inputs; \<^verbatim>\<open>pd.merge\<close> raises TypeError on \<^verbatim>\<open>None\<close>.
\<close>

definition merge_one_hot ::
  "data_dir \<Rightarrow> cfg \<Rightarrow> dataframe option \<Rightarrow> string list
     \<Rightarrow> string list \<times> (error + dataframe option)" where
  "merge_one_hot dir cfg input_df loaded =
     (if cfg_cancer_type cfg = ''all''
      then (case read_csv (tables dir) ''cancer_type_one_hot.tsv'' loaded of
              (loaded1, Inl e) \<Rightarrow> (loaded1, Inl e)
            | (loaded1, Inr cancer_type_one_hot_df) \<Rightarrow>
                (case input_df of
                   None \<Rightarrow> (loaded1, Inl (TypeError ''merge''))
                 | Some df \<Rightarrow> (loaded1, Inr (Some (merge df cancer_type_one_hot_df)))))
      else (loaded, Inr input_df))"

text \<open>What \<^verbatim>\<open>_process_dataset\<close> stores on the object.\<close>

record assembled =
  ds_X :: tensor
  ds_y :: tensor
  ds_mask :: tensor
  ds_cancer_types :: "string list"
  ds_one_hot_column_indices :: "nat list"
  ds_input_dimension :: nat
  ds_output_dimension :: nat
  ds_mask_dimension :: nat
  ds_entrezgene_ids :: "string list"

text \<open>
  Lines 102 to 124, once the tables are loaded: the assertion on the output and mask
  columns, the three merges, the removal of the key column, the seeded shuffle of the
  rows, and the slices by column offsets.
\<close>

definition assemble ::
  "(int \<Rightarrow> nat \<Rightarrow> nat list) \<Rightarrow> cfg \<Rightarrow> dataframe option \<Rightarrow> dataframe \<Rightarrow> dataframe
     \<Rightarrow> (string \<times> string) list \<Rightarrow> error + assembled" where
  "assemble perm cfg input_df output_df mask_df cancer_type_df =
     (if columns_tolist output_df = columns_tolist mask_df
      then (case input_df of
              None \<Rightarrow> Inl (TypeError ''merge'')
            | Some input_df \<Rightarrow>
                (let merged_df = merge (merge input_df output_df) mask_df;
                     merged_columns = merge_columns (df_columns merged_df) [''cancer_type''];
                     merged_rows = map snd (merge_rows (df_rows merged_df) cancer_type_df);
                     merged_rows = shuffle perm merged_rows (cfg_seed cfg);
                     input_dimension = length (df_columns input_df);
                     output_dimension = length (df_columns output_df);
                     mask_dimension = length (df_columns mask_df)
                 in Inr \<lparr> ds_X = map (\<lambda>row. take input_dimension (fst row)) merged_rows,
                          ds_y = map (\<lambda>row. take output_dimension
                                               (drop input_dimension (fst row))) merged_rows,
                          ds_mask = map (\<lambda>row. take mask_dimension
                                      (drop (input_dimension + output_dimension) (fst row)))
                                      merged_rows,
                          ds_cancer_types = map snd merged_rows,
                          ds_one_hot_column_indices =
                            map fst (filter (\<lambda>ic. startswith (snd ic) ''cancer_type_'')
                                       (enumerate 0 merged_columns)),
                          ds_input_dimension = input_dimension,
                          ds_output_dimension = output_dimension,
                          ds_mask_dimension = mask_dimension,
                          ds_entrezgene_ids = df_columns output_df \<rparr>))
      else Inl ColumnsOutputMask)"

text \<open>
  \<^verbatim>\<open>_process_dataset\<close>: the files are read in the order of the source; the result
  carries the list of the files loaded so far.
\<close>

definition process_dataset ::
  "(int \<Rightarrow> nat \<Rightarrow> nat list) \<Rightarrow> data_dir \<Rightarrow> cfg \<Rightarrow> string list \<Rightarrow> string
     \<Rightarrow> string list \<times> (error + assembled)" where
  "process_dataset perm dir cfg input_data_types output_data_type =
     (case read_csv (tables dir) (output_data_type @ ''.tsv'') [] of
        (loaded1, Inl e) \<Rightarrow> (loaded1, Inl e)
      | (loaded1, Inr output_df) \<Rightarrow>
     (case read_csv (tables dir) ''thresholded_cna.tsv'' loaded1 of
        (loaded2, Inl e) \<Rightarrow> (loaded2, Inl e)
      | (loaded2, Inr mask_df) \<Rightarrow>
     (case read_csv (label_tables dir) ''cancer_type.tsv'' loaded2 of
        (loaded3, Inl e) \<Rightarrow> (loaded3, Inl e)
      | (loaded3, Inr cancer_type_df) \<Rightarrow>
     (case load_inputs dir output_df
             (if cfg_cancer_type cfg = ''all'' then None
              else Some (map fst (filter (\<lambda>row. snd row = cfg_cancer_type cfg) cancer_type_df)))
             input_data_types None loaded3 of
        (loaded4, Inl e) \<Rightarrow> (loaded4, Inl e)
      | (loaded4, Inr input_df) \<Rightarrow>
     (case merge_one_hot dir cfg input_df loaded4 of
        (loaded5, Inl e) \<Rightarrow> (loaded5, Inl e)
      | (loaded5, Inr input_df) \<Rightarrow>
          (loaded5, assemble perm cfg input_df output_df mask_df cancer_type_df))))))"

section \<open>Construction of a Dataset: dataset.py, lines 25 to 65\<close>

record dataset = assembled +
  len_dataset :: nat
  split :: partition
  stats :: "real option statistics"

definition Dataset_init ::
  "(int \<Rightarrow> nat \<Rightarrow> nat list) \<Rightarrow> data_dir \<Rightarrow> cfg \<Rightarrow> string list \<Rightarrow> string
     \<Rightarrow> string list \<times> (error + dataset)" where
  "Dataset_init perm dir cfg input_data_types output_data_type =
     (let split_ratios = cfg_split_ratios cfg
      in if split_ratios ''train'' = None \<or> split_ratios ''val'' = None
            \<or> split_ratios ''test'' = None
         then ([], Inl SplitRatiosKeys)
         else if the (split_ratios ''train'') + the (split_ratios ''val'')
                   + the (split_ratios ''test'') \<noteq> 1
         then ([], Inl SplitRatiosSum)
         else
           (case process_dataset perm dir cfg input_data_types output_data_type of
              (loaded, Inl e) \<Rightarrow> (loaded, Inl e)
            | (loaded, Inr a) \<Rightarrow>
                (let n = length (ds_X a);
                     p = split_indices perm n (the (split_ratios ''train''))
                           (the (split_ratios ''val'')) (cfg_seed cfg)
                 in case train_statistics (ds_X a) (ds_y a) (ds_input_dimension a)
                           (ds_output_dimension a) (train_idx p)
                           (ds_one_hot_column_indices a) (cfg_normalization_eps cfg) of
                      Inl e \<Rightarrow> (loaded, Inl e)
                    | Inr st \<Rightarrow>
                        (loaded,
                         Inr \<lparr> ds_X = ds_X a, ds_y = ds_y a, ds_mask = ds_mask a,
                               ds_cancer_types = ds_cancer_types a,
                               ds_one_hot_column_indices = ds_one_hot_column_indices a,
                               ds_input_dimension = ds_input_dimension a,
                               ds_output_dimension = ds_output_dimension a,
                               ds_mask_dimension = ds_mask_dimension a,
                               ds_entrezgene_ids = ds_entrezgene_ids a,
                               len_dataset = n, split = p, stats = st \<rparr>))))"

text \<open>The five dataset classes of lines 138 to 185.\<close>

definition UnthresholdedCNAPurity2GEXDataset where
  "UnthresholdedCNAPurity2GEXDataset perm dir cfg =
     Dataset_init perm dir cfg [''unthresholded_cna'', ''tumor_purity''] ''gex''"


definition ThresholdedCNAPurity2GEXDataset where
  "ThresholdedCNAPurity2GEXDataset perm dir cfg =
     Dataset_init perm dir cfg [''thresholded_cna'', ''tumor_purity''] ''gex''"

definition ThresholdedCNA2GEXDataset where
  "ThresholdedCNA2GEXDataset perm dir cfg =
     Dataset_init perm dir cfg [''thresholded_cna''] ''gex''"





section \<open>Properties\<close>

subsection \<open>Normalizer round trip\<close>

lemma row_round_trip:
  "length mean = length x \<Longrightarrow> length std = length x \<Longrightarrow> 0 \<notin> set std \<Longrightarrow>
   row_invert (row_apply x mean std) mean std = x"
proof (induction x arbitrary: mean std)
  case Nil
  then show ?case by (simp add: row_invert_def row_apply_def)
next
  case (Cons a x)
  then obtain m mean' s std' where ms: "mean = m # mean'" "std = s # std'"
    by (metis length_Suc_conv)
  with Cons.prems have "s \<noteq> 0" "length mean' = length x" "length std' = length x" "0 \<notin> set std'"
    by auto
  with Cons.IH [of mean' std'] ms show ?case
    by (simp add: row_invert_def row_apply_def)
qed

text \<open>
  C6. For every batch tensor \<open>X\<close> whose rows have the width of the statistics, and every
  \<open>std\<close> that is nonzero in every coordinate, inverting the normalization of \<open>X\<close>
  gives \<open>X\<close> back, exactly (over the reals).
\<close>

theorem normalizer_round_trip:
  assumes "length std = length mean"
    and "list_all (\<lambda>row. length row = length mean) X"
    and "0 \<notin> set std"
  shows "normalizer_invert (normalizer_apply X mean std) mean std = X"
proof -
  have "row_invert (row_apply row mean std) mean std = row" if "row \<in> set X" for row
    using that assms by (intro row_round_trip) (auto simp: list_all_iff)
  then show ?thesis
    by (simp add: normalizer_invert_def normalizer_apply_def map_idI)
qed

theorem normalizer_round_trip_witness:
  "normalizer_apply [[1, 2], [3, 5]] [3, 4] [2, 1 / 2] = [[- 1, - 4], [0, 2]] \<and>
   normalizer_invert (normalizer_apply [[1, 2], [3, 5]] [3, 4] [2, 1 / 2]) [3, 4] [2, 1 / 2]
     = [[1, 2], [3, 5]]"
proof -
  have "normalizer_apply [[1, 2], [3, 5]] [3, 4] [2, 1 / 2] = [[- 1, - 4], [0, 2]]"
    by (simp add: normalizer_apply_def row_apply_def)
  moreover have "normalizer_invert (normalizer_apply [[1, 2], [3, 5]] [3, 4] [2, 1 / 2]) [3, 4] [2, 1 / 2]
     = [[1, 2], [3, 5]]"
    using normalizer_round_trip [of "[2, 1 / 2]" "[3, 4]" "[[1, 2], [3, 5]]"] by simp
  ultimately show ?thesis by simp
qed


subsection \<open>Partition of the row indices\<close>











subsection \<open>Normalization statistics\<close>












subsection \<open>The checks on the split ratios\<close>











subsection \<open>The column checks of the assembler\<close>






subsection \<open>An empty join\<close>










subsection \<open>Early stopping\<close>





subsection \<open>The call of validate in main.py\<close>

lemma validate_without_writer:
  "validate cfg data_loaders mdl loss_fn dataset epoch None = Inl (TypeError ''summary_writer'')"
  by (simp add: validate_def)

lemma validate_keys:
  assumes "validate cfg data_loaders mdl loss_fn dataset epoch summary_writer = Inr loss_dict"
  shows "dom loss_dict = {cfg_loss_function cfg}"
  using assms by (auto simp: validate_def Let_def split: option.splits if_splits)

lemma first_epoch_fails:
  "training_loop train (main_validate_call cfg data_loaders forward loss_fn dataset)
      patience (epoch # epochs) s = Inl (TypeError ''summary_writer'')"
  by (simp add: main_validate_call_def validate_without_writer)

text \<open>
  C5. For every configuration, the first iteration of the loop of \<^verbatim>\<open>main.py\<close> raises
  TypeError, since line 36 calls \<^verbatim>\<open>validate\<close> without \<^verbatim>\<open>summary_writer\<close>; so the
  program fails whenever it has an epoch to run. Moreover the dictionary that
  \<^verbatim>\<open>validate\<close> returns, when called with a writer, has the configured loss-function name
  as its only key: the lookup of \<^verbatim>\<open>"val"\<close> on line 37 succeeds only when that name is
  \<^verbatim>\<open>"val"\<close>, and otherwise the first iteration fails even with a writer supplied.
\<close>

theorem main_cannot_complete_first_epoch:
  "training_loop train (main_validate_call cfg data_loaders forward loss_fn dataset)
      patience (epoch # epochs) s = Inl (TypeError ''summary_writer'') \<and>
   (0 < cfg_num_epochs cfg \<longrightarrow>
      main train (main_validate_call cfg data_loaders forward loss_fn dataset) cfg init_model
        = Inl (TypeError ''summary_writer'')) \<and>
   (\<forall>loss_dict. validate cfg data_loaders mdl loss_fn dataset epoch (Some w) = Inr loss_dict \<longrightarrow>
      dom loss_dict = {cfg_loss_function cfg} \<and>
      (loss_dict ''val'' \<noteq> None \<longleftrightarrow> cfg_loss_function cfg = ''val'')) \<and>
   (cfg_loss_function cfg \<noteq> ''val'' \<longrightarrow>
      (\<exists>e. training_loop train
             (\<lambda>m ep. validate cfg data_loaders (forward m) loss_fn dataset ep (Some w))
             patience (epoch # epochs) s = Inl e))"
proof (intro conjI impI allI)
  show "training_loop train (main_validate_call cfg data_loaders forward loss_fn dataset)
      patience (epoch # epochs) s = Inl (TypeError ''summary_writer'')"
    by (rule first_epoch_fails)
  assume "0 < cfg_num_epochs cfg"
  then have eq: "[1..cfg_num_epochs cfg] = 1 # [2..cfg_num_epochs cfg]"
    by (simp add: upto_rec1)
  show "main train (main_validate_call cfg data_loaders forward loss_fn dataset) cfg init_model
        = Inl (TypeError ''summary_writer'')"
    by (simp only: main_def eq first_epoch_fails sum.case)
next
  fix loss_dict
  assume v: "validate cfg data_loaders mdl loss_fn dataset epoch (Some w) = Inr loss_dict"
  show "dom loss_dict = {cfg_loss_function cfg}"
    by (rule validate_keys [OF v])
  then show "(loss_dict ''val'' \<noteq> None) = (cfg_loss_function cfg = ''val'')"
    by (metis domIff singletonD singletonI)
next
  assume n: "cfg_loss_function cfg \<noteq> ''val''"
  show "\<exists>e. training_loop train
             (\<lambda>m ep. validate cfg data_loaders (forward m) loss_fn dataset ep (Some w))
             patience (epoch # epochs) s = Inl e"
  proof (cases "validate cfg data_loaders (forward (train (current_model s))) loss_fn dataset epoch (Some w)")
    case (Inl e)
    then show ?thesis by simp
  next
    case (Inr loss_dict)
    from validate_keys [OF Inr] n have "loss_dict ''val'' = None"
      by (metis domIff singletonD)
    with Inr show ?thesis by simp
  qed
qed

theorem main_cannot_complete_first_epoch_witness:
  "0 < cfg_num_epochs example_cfg \<and>
   cfg_loss_function example_cfg \<noteq> ''val'' \<and>
   main Suc
     (main_validate_call example_cfg Map.empty (\<lambda>m. fixed_model []) sum_squared_error
        \<lparr> X_train_mean = [0], X_train_std = [1], y_train_mean = [1], y_train_std = [2] \<rparr>)
     example_cfg 0 = Inl (TypeError ''summary_writer'')"
proof -
  have n: "0 < cfg_num_epochs example_cfg" "cfg_loss_function example_cfg \<noteq> ''val''"
    by (simp_all add: example_cfg_def)
  have "0 < cfg_num_epochs example_cfg \<longrightarrow>
    main Suc
     (main_validate_call example_cfg Map.empty (\<lambda>m. fixed_model []) sum_squared_error
        \<lparr> X_train_mean = [0], X_train_std = [1], y_train_mean = [1], y_train_std = [2] \<rparr>)
     example_cfg 0 = Inl (TypeError ''summary_writer'')"
    by (rule main_cannot_complete_first_epoch [THEN conjunct2, THEN conjunct1])
  with n show ?thesis by blast
qed


subsection \<open>Denormalization before the metrics\<close>

lemma pearsonr_35_12: "pearsonr [3, 5] [1, 2] = Inr (Some 1)"
  by (simp add: pearsonr_def centred_def norm2_def dot_def power2_eq_square flip: real_sqrt_mult)

text \<open>
  C4 holds for the validation pass and fails for the reporting phase. With output
  normalization enabled, statistics mean 1 and std 2, targets \<open>[3, 5]\<close> and a model whose
  raw output is the normalized target \<open>[1, 2]\<close>, \<^verbatim>\<open>validate\<close> inverts the
  normalization and reports the loss 0, while \<^verbatim>\<open>save_results_split\<close> compares the raw
  output with the targets: loss and MSE are \<open>13/2\<close> and the persisted predictions are
  \<open>[1, 2]\<close>. The reporting phase never reads the normalization setting.
\<close>

theorem reporting_ignores_output_normalization:
  "validate example_cfg
      [''val'' \<mapsto> [\<lparr> batch_X = [[0]], batch_y = [[3, 5]], sample_id_indices = [0] \<rparr>]]
      (fixed_model [[1, 2]]) sum_squared_error
      \<lparr> X_train_mean = [0], X_train_std = [1], y_train_mean = [1, 1], y_train_std = [2, 2] \<rparr>
      1 (Some ()) = Inr [''mse'' \<mapsto> 0] \<and>
   save_results_split example_cfg
      [''val'' \<mapsto> [\<lparr> batch_X = [[0]], batch_y = [[3, 5]], sample_id_indices = [0] \<rparr>]]
      ''val'' (fixed_model [[1, 2]]) sum_squared_error [''A''] [(''A'', ''BRCA'')] =
     Inr \<lparr> all_loss = 13 / 2,
           ground_truths_tsv = \<lparr> df_columns = [''g1'', ''g2''], df_rows = [(''A'', [3, 5])] \<rparr>,
           predictions_tsv = \<lparr> df_columns = [''g1'', ''g2''], df_rows = [(''A'', [1, 2])] \<rparr>,
           cancer_types_tsv = [(''A'', ''BRCA'')],
           evaluation_metrics_all = [(''BRCA'', 13 / 2, Some 1), (''all'', 13 / 2, Some 1)] \<rparr> \<and>
   save_results_split (cfg\<lparr> cfg_normalize_output := True \<rparr>) data_loaders split_name mdl loss_fn
      sample_ids cancer_type_tsv =
   save_results_split (cfg\<lparr> cfg_normalize_output := False \<rparr>) data_loaders split_name mdl
      loss_fn sample_ids cancer_type_tsv"
proof (intro conjI)
  show "validate example_cfg
      [''val'' \<mapsto> [\<lparr> batch_X = [[0]], batch_y = [[3, 5]], sample_id_indices = [0] \<rparr>]]
      (fixed_model [[1, 2]]) sum_squared_error
      \<lparr> X_train_mean = [0], X_train_std = [1], y_train_mean = [1, 1], y_train_std = [2, 2] \<rparr>
      1 (Some ()) = Inr [''mse'' \<mapsto> 0]"
    by (simp add: validate_def validate_batch_def example_cfg_def fixed_model_def
        normalizer_invert_def row_invert_def sum_squared_error_def numel_def)
  show "save_results_split example_cfg
      [''val'' \<mapsto> [\<lparr> batch_X = [[0]], batch_y = [[3, 5]], sample_id_indices = [0] \<rparr>]]
      ''val'' (fixed_model [[1, 2]]) sum_squared_error [''A''] [(''A'', ''BRCA'')] =
     Inr \<lparr> all_loss = 13 / 2,
           ground_truths_tsv = \<lparr> df_columns = [''g1'', ''g2''], df_rows = [(''A'', [3, 5])] \<rparr>,
           predictions_tsv = \<lparr> df_columns = [''g1'', ''g2''], df_rows = [(''A'', [1, 2])] \<rparr>,
           cancer_types_tsv = [(''A'', ''BRCA'')],
           evaluation_metrics_all = [(''BRCA'', 13 / 2, Some 1), (''all'', 13 / 2, Some 1)] \<rparr>"
    by (simp add: save_results_split_def example_cfg_def fixed_model_def sum_squared_error_def
        numel_def results_frame_def select_columns_def group_by_cancer_type_def
        get_evaluation_metrics_def ravel_group_def mean_squared_error_def pearsonr_35_12)
  show "save_results_split (cfg\<lparr> cfg_normalize_output := True \<rparr>) data_loaders split_name mdl loss_fn
      sample_ids cancer_type_tsv =
   save_results_split (cfg\<lparr> cfg_normalize_output := False \<rparr>) data_loaders split_name mdl
      loss_fn sample_ids cancer_type_tsv"
    by (simp add: save_results_split_def cong: option.case_cong sum.case_cong if_cong)
qed


subsection \<open>Per-group metrics\<close>

lemma pearsonr_12_12: "pearsonr [1, 2] [1, 2] = Inr (Some 1)"
  by (simp add: pearsonr_def centred_def norm2_def dot_def power2_eq_square flip: real_sqrt_mult)

lemma pearsonr_34_35: "pearsonr [3, 4] [3, 5] = Inr (Some 1)"
  by (simp add: pearsonr_def centred_def norm2_def dot_def power2_eq_square flip: real_sqrt_mult)

lemma pearsonr_all: "\<exists>r. pearsonr [1, 2, 3, 4] [1, 2, 3, 5] = Inr (Some r)"
  by (simp add: pearsonr_def Let_def)

lemma pearsonr_constant:
  assumes "length x = length y" and "2 \<le> length x"
    and "list_all (\<lambda>v. v = hd x) x \<or> list_all (\<lambda>v. v = hd y) y"
  shows "pearsonr x y = Inr None"
  using assms by (simp add: pearsonr_def)

lemma mse_defined:
  assumes "length x = length y" and "2 \<le> length x"
  shows "mean_squared_error x y =
    Inr (sum_list (map (\<lambda>(t, p). (t - p)\<^sup>2) (zip x y)) / real (length x))"
  using assms by (auto simp: mean_squared_error_def)

text \<open>
  C10, as stated, says that a group of a single sample has an undefined correlation. The
  correlation is taken over the flattened sample-by-gene values of the group, so in the
  scenario the group of sample A alone compares \<open>[1, 2]\<close> with \<open>[1, 2]\<close>: the
  correlation is defined, and equal to 1.
\<close>

theorem single_sample_group_correlation:
  "get_evaluation_metrics ''typeA''
     \<lparr> df_columns = [''g1'', ''g2''], df_rows = [(''A'', [1, 2]), (''B'', [3, 4])] \<rparr>
     \<lparr> df_columns = [''g1'', ''g2''], df_rows = [(''A'', [1, 2]), (''B'', [3, 5])] \<rparr>
     [''A''] = Inr (''typeA'', 0, Some 1)"
  by (simp add: get_evaluation_metrics_def ravel_group_def mean_squared_error_def pearsonr_12_12)

text \<open>
  C10, as amended. In the scenario the group \<^verbatim>\<open>"all"\<close> has MSE \<open>1/4\<close> over the
  flattened values, and the whole reporter emits the rows of the two single-sample groups
  with correlation 1 and the row of \<^verbatim>\<open>"all"\<close> last. A group whose flattened ground
  truths or predictions hold at least two values and are constant gets the correlation
  NaN, which is emitted in its row, and the loop goes on with the remaining groups.
\<close>

theorem evaluation_metrics_groups:
  "(\<exists>r. get_evaluation_metrics ''all''
      \<lparr> df_columns = [''g1'', ''g2''], df_rows = [(''A'', [1, 2]), (''B'', [3, 4])] \<rparr>
      \<lparr> df_columns = [''g1'', ''g2''], df_rows = [(''A'', [1, 2]), (''B'', [3, 5])] \<rparr>
      [''A'', ''B''] = Inr (''all'', 1 / 4, Some r)) \<and>
   (\<exists>r. map_sum id evaluation_metrics_all
      (save_results_split example_cfg
         [''test'' \<mapsto> [\<lparr> batch_X = [[0], [0]], batch_y = [[3, 4], [1, 2]],
                          sample_id_indices = [1, 0] \<rparr>]]
         ''test'' (fixed_model [[3, 5], [1, 2]]) sum_squared_error [''A'', ''B'']
         [(''A'', ''typeA''), (''B'', ''typeB'')]) =
      Inr [(''typeA'', 0, Some 1), (''typeB'', 1 / 2, Some 1), (''all'', 1 / 4, Some r)]) \<and>
   (length (ravel_group gts ids) = length (ravel_group preds ids) \<and>
    2 \<le> length (ravel_group gts ids) \<and>
    (list_all (\<lambda>v. v = hd (ravel_group gts ids)) (ravel_group gts ids) \<or>
     list_all (\<lambda>v. v = hd (ravel_group preds ids)) (ravel_group preds ids)) \<longrightarrow>
    evaluation_metrics gts preds ((ct, ids) # groups) =
      (case evaluation_metrics gts preds groups of
         Inl e \<Rightarrow> Inl e
       | Inr ms \<Rightarrow>
           Inr ((ct,
                 sum_list (map (\<lambda>(t, p). (t - p)\<^sup>2)
                   (zip (ravel_group gts ids) (ravel_group preds ids)))
                   / real (length (ravel_group gts ids)),
                 None) # ms)))"
proof (intro conjI impI)
  obtain r where r: "pearsonr [1, 2, 3, 4] [1, 2, 3, 5] = Inr (Some r)"
    using pearsonr_all by blast
  show "\<exists>r. get_evaluation_metrics ''all''
      \<lparr> df_columns = [''g1'', ''g2''], df_rows = [(''A'', [1, 2]), (''B'', [3, 4])] \<rparr>
      \<lparr> df_columns = [''g1'', ''g2''], df_rows = [(''A'', [1, 2]), (''B'', [3, 5])] \<rparr>
      [''A'', ''B''] = Inr (''all'', 1 / 4, Some r)"
    by (simp add: get_evaluation_metrics_def ravel_group_def mean_squared_error_def r)
  have "map_sum id evaluation_metrics_all
      (save_results_split example_cfg
         [''test'' \<mapsto> [\<lparr> batch_X = [[0], [0]], batch_y = [[3, 4], [1, 2]],
                          sample_id_indices = [1, 0] \<rparr>]]
         ''test'' (fixed_model [[3, 5], [1, 2]]) sum_squared_error [''A'', ''B'']
         [(''A'', ''typeA''), (''B'', ''typeB'')]) =
      Inr [(''typeA'', 0, Some 1), (''typeB'', 1 / 2, Some 1), (''all'', 1 / 4, Some r)]"
    by (simp add: save_results_split_def example_cfg_def fixed_model_def sum_squared_error_def
        numel_def results_frame_def select_columns_def group_by_cancer_type_def
        get_evaluation_metrics_def ravel_group_def mean_squared_error_def
        pearsonr_12_12 pearsonr_34_35 r)
  then show "\<exists>r. map_sum id evaluation_metrics_all
      (save_results_split example_cfg
         [''test'' \<mapsto> [\<lparr> batch_X = [[0], [0]], batch_y = [[3, 4], [1, 2]],
                          sample_id_indices = [1, 0] \<rparr>]]
         ''test'' (fixed_model [[3, 5], [1, 2]]) sum_squared_error [''A'', ''B'']
         [(''A'', ''typeA''), (''B'', ''typeB'')]) =
      Inr [(''typeA'', 0, Some 1), (''typeB'', 1 / 2, Some 1), (''all'', 1 / 4, Some r)]"
    by blast
next
  assume a: "length (ravel_group gts ids) = length (ravel_group preds ids) \<and>
    2 \<le> length (ravel_group gts ids) \<and>
    (list_all (\<lambda>v. v = hd (ravel_group gts ids)) (ravel_group gts ids) \<or>
     list_all (\<lambda>v. v = hd (ravel_group preds ids)) (ravel_group preds ids))"
  then have p: "pearsonr (ravel_group gts ids) (ravel_group preds ids) = Inr None"
    by (intro pearsonr_constant) simp_all
  from a have m: "mean_squared_error (ravel_group gts ids) (ravel_group preds ids) =
    Inr (sum_list (map (\<lambda>(t, p). (t - p)\<^sup>2)
           (zip (ravel_group gts ids) (ravel_group preds ids)))
         / real (length (ravel_group gts ids)))"
    by (intro mse_defined) simp_all
  show "evaluation_metrics gts preds ((ct, ids) # groups) =
      (case evaluation_metrics gts preds groups of
         Inl e \<Rightarrow> Inl e
       | Inr ms \<Rightarrow>
           Inr ((ct,
                 sum_list (map (\<lambda>(t, p). (t - p)\<^sup>2)
                   (zip (ravel_group gts ids) (ravel_group preds ids)))
                   / real (length (ravel_group gts ids)),
                 None) # ms))"
    by (simp add: get_evaluation_metrics_def Let_def p m)
qed

theorem evaluation_metrics_groups_witness:
  "evaluation_metrics
     \<lparr> df_columns = [''g1'', ''g2''], df_rows = [(''A'', [2, 2]), (''B'', [3, 4])] \<rparr>
     \<lparr> df_columns = [''g1'', ''g2''], df_rows = [(''A'', [3, 5]), (''B'', [3, 5])] \<rparr>
     [(''typeA'', [''A''])] = Inr [(''typeA'', 5, None)]"
  using evaluation_metrics_groups
    [where gts = "\<lparr> df_columns = [''g1'', ''g2''], df_rows = [(''A'', [2, 2]), (''B'', [3, 4])] \<rparr>"
       and preds = "\<lparr> df_columns = [''g1'', ''g2''], df_rows = [(''A'', [3, 5]), (''B'', [3, 5])] \<rparr>"
       and ids = "[''A'']" and ct = "''typeA''" and groups = "[]"]
  by (simp add: ravel_group_def)


end
